theory Spec2Isabelle
  imports Main "HOL-Library.Word"
begin

unbundle bit_operations_syntax

section \<open>The capability query of \<^verbatim>\<open>capabilities.c\<close>\<close>

subsection \<open>Data\<close>

text \<open>
  \<^verbatim>\<open>int\<close> and \<^verbatim>\<open>jint\<close> are 32-bit two's complement integers; \<^verbatim>\<open>JNIEnv *\<close> and
  \<^verbatim>\<open>jclass\<close> are opaque addresses.
\<close>

type_synonym jint = "32 word"
type_synonym JNIEnv_ptr = "64 word"
type_synonym jclass = "64 word"

text \<open>
  A platform configuration says which of the preprocessor symbols tested by
  \<^verbatim>\<open>capabilities.c\<close> are defined when the file is compiled. \<^verbatim>\<open>config.h\<close> and the system
  headers that define them are not part of the sources at hand, so every symbol is an
  independent parameter.
\<close>

record platform =
  defined_LOCAL_PEERCRED :: bool
  defined_LOCAL_PEEREPID :: bool
  defined_LOCAL_PEEREUUID :: bool
  defined_SO_PEERCRED :: bool
  defined_NetBSD :: bool \<comment> \<open>\<^verbatim>\<open>__NetBSD__\<close>\<close>
  defined_sun :: bool \<comment> \<open>\<^verbatim>\<open>__sun\<close>\<close>
  defined_sun_alt :: bool \<comment> \<open>\<^verbatim>\<open>__sun__\<close>\<close>
  defined_junixsocket_have_ancillary :: bool
  defined_linux :: bool \<comment> \<open>\<^verbatim>\<open>__linux__\<close>\<close>
  defined_WIN32 :: bool \<comment> \<open>\<^verbatim>\<open>_WIN32\<close>\<close>

text \<open>The six file-scope variables of \<^verbatim>\<open>capabilities.c\<close> (they are not \<^verbatim>\<open>const\<close>).\<close>

record statics =
  CAPABILITY_PEER_CREDENTIALS :: jint
  CAPABILITY_ANCILLARY_MESSAGES :: jint
  CAPABILITY_FILE_DESCRIPTORS :: jint
  CAPABILITY_ABSTRACT_NAMESPACE :: jint
  CAPABILITY_DATAGRAMS :: jint
  CAPABILITY_NATIVE_SOCKETPAIR :: jint

text \<open>
  The state a native method can observe and change: the file-scope variables, and the
  exception pending in the calling thread's JNI environment (the channel through which a
  native method reports failure).
\<close>

record machine =
  statics :: statics
  pending_exception :: "string option"

text \<open>The initialisers \<^verbatim>\<open>(1 << 0)\<close> ... \<^verbatim>\<open>(1 << 5)\<close>.\<close>

definition static_initializers :: statics where
  "static_initializers =
     \<lparr> CAPABILITY_PEER_CREDENTIALS = push_bit 0 1,
       CAPABILITY_ANCILLARY_MESSAGES = push_bit 1 1,
       CAPABILITY_FILE_DESCRIPTORS = push_bit 2 1,
       CAPABILITY_ABSTRACT_NAMESPACE = push_bit 3 1,
       CAPABILITY_DATAGRAMS = push_bit 4 1,
       CAPABILITY_NATIVE_SOCKETPAIR = push_bit 5 1 \<rparr>"

text \<open>The machine once the library is loaded, with a given pending exception.\<close>

definition library_loaded :: "string option \<Rightarrow> machine" where
  "library_loaded pe = \<lparr> statics = static_initializers, pending_exception = pe \<rparr>"

subsection \<open>The native method\<close>

text \<open>
  Each \<^verbatim>\<open>#if\<close> block is a conditional on the platform configuration; each
  \<^verbatim>\<open>capabilities |= X\<close> reads the file-scope variable \<^verbatim>\<open>X\<close> and rebinds the local.
  Neither argument is used, nothing is written but the local, and the machine is handed
  back as it came.
\<close>

definition Java_org_newsclub_net_unix_NativeUnixSocket_capabilities ::
  "JNIEnv_ptr \<Rightarrow> jclass \<Rightarrow> platform \<Rightarrow> machine \<Rightarrow> jint \<times> machine" where
  "Java_org_newsclub_net_unix_NativeUnixSocket_capabilities env clazz p m =
    (let capabilities = 0;
         capabilities =
           (if defined_LOCAL_PEERCRED p \<or> defined_LOCAL_PEEREPID p \<or> defined_LOCAL_PEEREUUID p \<or>
               defined_SO_PEERCRED p \<or> defined_NetBSD p \<or> defined_sun p \<or> defined_sun_alt p
            then capabilities OR CAPABILITY_PEER_CREDENTIALS (statics m)
            else capabilities);
         capabilities =
           (if defined_junixsocket_have_ancillary p
            then (let capabilities = capabilities OR CAPABILITY_ANCILLARY_MESSAGES (statics m);
                      capabilities = capabilities OR CAPABILITY_FILE_DESCRIPTORS (statics m)
                  in capabilities)
            else capabilities);
         capabilities =
           (if defined_linux p
            then capabilities OR CAPABILITY_ABSTRACT_NAMESPACE (statics m)
            else capabilities);
         capabilities =
           (if \<not> defined_WIN32 p
            then capabilities OR CAPABILITY_DATAGRAMS (statics m)
            else capabilities);
         capabilities =
           (if \<not> defined_WIN32 p
            then capabilities OR CAPABILITY_NATIVE_SOCKETPAIR (statics m)
            else capabilities)
     in (capabilities, m))"

subsection \<open>Some platform configurations\<close>

definition no_symbols :: platform where
  "no_symbols =
     \<lparr> defined_LOCAL_PEERCRED = False, defined_LOCAL_PEEREPID = False,
       defined_LOCAL_PEEREUUID = False, defined_SO_PEERCRED = False, defined_NetBSD = False,
       defined_sun = False, defined_sun_alt = False,
       defined_junixsocket_have_ancillary = False, defined_linux = False,
       defined_WIN32 = False \<rparr>"

definition linux_platform :: platform where
  "linux_platform =
     no_symbols \<lparr> defined_SO_PEERCRED := True, defined_junixsocket_have_ancillary := True,
                  defined_linux := True \<rparr>"

definition macos_platform :: platform where
  "macos_platform =
     no_symbols \<lparr> defined_LOCAL_PEERCRED := True, defined_LOCAL_PEEREPID := True,
                  defined_LOCAL_PEEREUUID := True, defined_junixsocket_have_ancillary := True \<rparr>"

definition solaris_platform :: platform where
  "solaris_platform =
     no_symbols \<lparr> defined_sun := True, defined_sun_alt := True,
                  defined_junixsocket_have_ancillary := True \<rparr>"

definition windows_platform :: platform where
  "windows_platform = no_symbols \<lparr> defined_WIN32 := True \<rparr>"


subsection \<open>The capability table of the specification\<close>

text \<open>
  The specification (sections 3 and 6) names six features, gives each a bit position, and
  says on which platforms each is available. These definitions follow its words; the
  theorems below compare them with the native method.
\<close>

datatype feature =
  PEER_CREDENTIALS | ANCILLARY_MESSAGES | FILE_DESCRIPTORS | ABSTRACT_NAMESPACE |
  DATAGRAMS | NATIVE_SOCKETPAIR

fun spec_bit :: "feature \<Rightarrow> nat" where
  "spec_bit PEER_CREDENTIALS = 0"
| "spec_bit ANCILLARY_MESSAGES = 1"
| "spec_bit FILE_DESCRIPTORS = 2"
| "spec_bit ABSTRACT_NAMESPACE = 3"
| "spec_bit DATAGRAMS = 4"
| "spec_bit NATIVE_SOCKETPAIR = 5"

text \<open>
  Peer credentials: one of the four socket options, or NetBSD, or Solaris (which
  announces itself by \<^verbatim>\<open>__sun\<close> or \<^verbatim>\<open>__sun__\<close>). Ancillary messages and file descriptors:
  the control-message facility. Abstract namespace: Linux only. Datagrams and native
  socket pairs: everywhere but on Windows.
\<close>

fun spec_supports :: "platform \<Rightarrow> feature \<Rightarrow> bool" where
  "spec_supports p PEER_CREDENTIALS =
     (defined_LOCAL_PEERCRED p \<or> defined_LOCAL_PEEREPID p \<or> defined_LOCAL_PEEREUUID p \<or>
      defined_SO_PEERCRED p \<or> defined_NetBSD p \<or> (defined_sun p \<or> defined_sun_alt p))"
| "spec_supports p ANCILLARY_MESSAGES = defined_junixsocket_have_ancillary p"
| "spec_supports p FILE_DESCRIPTORS = defined_junixsocket_have_ancillary p"
| "spec_supports p ABSTRACT_NAMESPACE = defined_linux p"
| "spec_supports p DATAGRAMS = (\<not> defined_WIN32 p)"
| "spec_supports p NATIVE_SOCKETPAIR = (\<not> defined_WIN32 p)"

definition all_features :: "feature list" where
  "all_features =
     [PEER_CREDENTIALS, ANCILLARY_MESSAGES, FILE_DESCRIPTORS, ABSTRACT_NAMESPACE, DATAGRAMS,
      NATIVE_SOCKETPAIR]"

text \<open>The OR of the bits of the supported features.\<close>

definition spec_capabilities :: "platform \<Rightarrow> jint" where
  "spec_capabilities p =
     fold (\<lambda>f acc. if spec_supports p f then acc OR push_bit (spec_bit f) 1 else acc)
       all_features 0"

section \<open>The socket handle lifecycle\<close>

text \<open>
  \<^verbatim>\<open>org_newsclub_net_unix_NativeUnixSocket.h\<close> declares the native methods \<^verbatim>\<open>bind\<close>,
  \<^verbatim>\<open>listen\<close>, \<^verbatim>\<open>accept\<close>, \<^verbatim>\<open>connect\<close>, \<^verbatim>\<open>read\<close>, \<^verbatim>\<open>write\<close>, \<^verbatim>\<open>close\<close> and \<^verbatim>\<open>shutdown\<close>;
  the file that defines them is not among the sources. Their state checks are therefore
  taken from section 4.3 of the specification.
\<close>

text \<open>
  Modelled from the spec: the lifecycle state of a socket handle (the native
  implementation of the handle is missing). The states are those of section 4.3.
\<close>

datatype lifecycle =
  Unbound | Bound | Listening | Connecting | Connected |
  ShutdownRead | ShutdownWrite | ShutdownBoth | Closed

text \<open>
  Modelled from the spec: the error kinds of section 7 (the native error reporting is
  missing). \<open>IOFailure\<close> carries the native error code.
\<close>

datatype error =
  ClosedHandle | InvalidState | AddressInUse | InvalidAddress | NoSuchAddress |
  ConnectionRefused | Timeout | Interrupted | UnsupportedOperation | UnknownOption |
  PartialAncillaryFailure | IOFailure int

text \<open>Modelled from the spec: the direction argument of \<^verbatim>\<open>shutdown\<close> (its definition is missing).\<close>

datatype direction = ReadSide | WriteSide | BothSides

text \<open>
  Modelled from the spec: the operations on one handle (the definitions of the native
  methods are missing).
\<close>

datatype operation = Bind | Listen | Accept | Connect | Read | Write | Shutdown direction | Close

text \<open>
  Modelled from the spec: what the operating system answers when an operation passes its
  state check and reaches the system call (the system-call layer is missing): an error,
  or success with the number of bytes transferred (meaningful for \<open>Read\<close> and \<open>Write\<close>).
\<close>

datatype os_result = Fails error | Succeeds nat

text \<open>
  Modelled from the spec: what a successful operation hands back (the native return
  values are missing): nothing, a byte count, or the new handle of \<open>Accept\<close>, which starts
  in state \<open>Connected\<close>.
\<close>

datatype reply = Done | Transferred nat | NewHandle lifecycle

text \<open>
  Modelled from the spec: the guards of section 4.3 (the native state checks are missing).
  \<open>Bind\<close> only from \<open>Unbound\<close>; \<open>Listen\<close> only from \<open>Bound\<close>; \<open>Accept\<close> only from \<open>Listening\<close>;
  \<open>Connect\<close> from \<open>Unbound\<close> or \<open>Bound\<close>; \<open>Read\<close> and \<open>Write\<close> only from \<open>Connected\<close>;
  \<open>Shutdown\<close> from \<open>Connected\<close> and, being idempotent per direction, from the shutdown
  states; \<open>Close\<close> from any state but \<open>Closed\<close>.
\<close>

fun valid_from :: "operation \<Rightarrow> lifecycle \<Rightarrow> bool" where
  "valid_from Bind s = (s = Unbound)"
| "valid_from Listen s = (s = Bound)"
| "valid_from Accept s = (s = Listening)"
| "valid_from Connect s = (s = Unbound \<or> s = Bound)"
| "valid_from Read s = (s = Connected)"
| "valid_from Write s = (s = Connected)"
| "valid_from (Shutdown d) s =
     (s = Connected \<or> s = ShutdownRead \<or> s = ShutdownWrite \<or> s = ShutdownBoth)"
| "valid_from Close s = (s \<noteq> Closed)"

text \<open>
  Modelled from the spec: the state \<^verbatim>\<open>shutdown\<close> moves to (its definition is missing): the
  partial or full shutdown state that adds the direction to the sides already shut down.
\<close>

fun shut :: "direction \<Rightarrow> lifecycle \<Rightarrow> lifecycle" where
  "shut ReadSide Connected = ShutdownRead"
| "shut WriteSide Connected = ShutdownWrite"
| "shut BothSides Connected = ShutdownBoth"
| "shut ReadSide ShutdownRead = ShutdownRead"
| "shut WriteSide ShutdownRead = ShutdownBoth"
| "shut BothSides ShutdownRead = ShutdownBoth"
| "shut ReadSide ShutdownWrite = ShutdownBoth"
| "shut WriteSide ShutdownWrite = ShutdownWrite"
| "shut BothSides ShutdownWrite = ShutdownBoth"
| "shut d s = s"

text \<open>
  Modelled from the spec: the state after a successful operation (the definitions of the
  native methods are missing). \<open>Accept\<close> leaves the listening handle as it is, \<open>Read\<close> and
  \<open>Write\<close> do not change the state.
\<close>

fun target :: "operation \<Rightarrow> lifecycle \<Rightarrow> lifecycle" where
  "target Bind s = Bound"
| "target Listen s = Listening"
| "target Accept s = s"
| "target Connect s = Connected"
| "target Read s = s"
| "target Write s = s"
| "target (Shutdown d) s = shut d s"
| "target Close s = Closed"

text \<open>Modelled from the spec: the value of a successful operation (native return values missing).\<close>

fun reply_of :: "operation \<Rightarrow> nat \<Rightarrow> reply" where
  "reply_of Read n = Transferred n"
| "reply_of Write n = Transferred n"
| "reply_of Accept n = NewHandle Connected"
| "reply_of opn n = Done"

text \<open>
  Modelled from the spec: one operation on a handle (the definitions of the native methods
  are missing). A closed handle refuses everything with \<open>ClosedHandle\<close>; an operation that
  is not valid in the current state fails with \<open>InvalidState\<close>; \<open>Close\<close> always succeeds,
  whatever the release of the descriptor reports; any other operation fails with the
  operating system's error, leaving the state as it was, or succeeds and moves on.
\<close>

definition perform :: "operation \<Rightarrow> os_result \<Rightarrow> lifecycle \<Rightarrow> (error + reply) \<times> lifecycle" where
  "perform opn os s =
     (if s = Closed then (Inl ClosedHandle, Closed)
      else if \<not> valid_from opn s then (Inl InvalidState, s)
      else if opn = Close then (Inr Done, Closed)
      else (case os of
              Fails e \<Rightarrow> (Inl e, s)
            | Succeeds n \<Rightarrow> (Inr (reply_of opn n), target opn s)))"

text \<open>
  Modelled from the spec: a caller issuing operations one after the other on the same
  handle (the callers are missing); the state after the last one.
\<close>

fun run :: "(operation \<times> os_result) list \<Rightarrow> lifecycle \<Rightarrow> lifecycle" where
  "run [] s = s"
| "run ((opn, os) # rest) s = run rest (snd (perform opn os s))"


section \<open>Properties of the capability query\<close>

lemmas platform_defs = no_symbols_def linux_platform_def macos_platform_def
  solaris_platform_def windows_platform_def

lemmas spec_defs = spec_capabilities_def all_features_def

lemmas native_defs = Java_org_newsclub_net_unix_NativeUnixSocket_capabilities_def library_loaded_def static_initializers_def

text \<open>The call hands the machine back unchanged.\<close>

lemma capabilities_unchanged_machine:
  "snd (Java_org_newsclub_net_unix_NativeUnixSocket_capabilities env clazz p m) = m"
  by (simp add: Java_org_newsclub_net_unix_NativeUnixSocket_capabilities_def Let_def)

text \<open>The result in closed form, one disjunct per \<^verbatim>\<open>#if\<close> block.\<close>

lemma capabilities_closed_form:
  "fst (Java_org_newsclub_net_unix_NativeUnixSocket_capabilities env clazz p (library_loaded pe)) =
     (if defined_LOCAL_PEERCRED p \<or> defined_LOCAL_PEEREPID p \<or> defined_LOCAL_PEEREUUID p \<or>
         defined_SO_PEERCRED p \<or> defined_NetBSD p \<or> defined_sun p \<or> defined_sun_alt p
      then 1 else 0) OR
     (if defined_junixsocket_have_ancillary p then 6 else 0) OR
     (if defined_linux p then 8 else 0) OR
     (if defined_WIN32 p then 0 else 48)"
  unfolding Java_org_newsclub_net_unix_NativeUnixSocket_capabilities_def Let_def
    library_loaded_def static_initializers_def
  by (simp only: fst_conv machine.simps statics.simps) (simp add: ac_simps)

text \<open>Which bits of the result are set.\<close>

lemma capabilities_bit_iff:
  "bit (fst (Java_org_newsclub_net_unix_NativeUnixSocket_capabilities env clazz p (library_loaded pe))) n \<longleftrightarrow>
     n = 0 \<and> (defined_LOCAL_PEERCRED p \<or> defined_LOCAL_PEEREPID p \<or> defined_LOCAL_PEEREUUID p \<or>
         defined_SO_PEERCRED p \<or> defined_NetBSD p \<or> defined_sun p \<or> defined_sun_alt p) \<or>
     (n = 1 \<or> n = 2) \<and> defined_junixsocket_have_ancillary p \<or>
     n = 3 \<and> defined_linux p \<or>
     (n = 4 \<or> n = 5) \<and> \<not> defined_WIN32 p"
proof -
  have pow: "bit (push_bit k 1 :: jint) n \<longleftrightarrow> n = k" if "k < 32" for k
    using that by (auto simp add: bit_push_bit_iff bit_1_iff simp del: push_bit_of_1)
  have p0: "bit (push_bit 0 1 :: jint) n \<longleftrightarrow> n = 0" by (rule pow) simp
  have p1: "bit (push_bit 1 1 :: jint) n \<longleftrightarrow> n = 1" by (rule pow) simp
  have p2: "bit (push_bit 2 1 :: jint) n \<longleftrightarrow> n = 2" by (rule pow) simp
  have p3: "bit (push_bit 3 1 :: jint) n \<longleftrightarrow> n = 3" by (rule pow) simp
  have p4: "bit (push_bit 4 1 :: jint) n \<longleftrightarrow> n = 4" by (rule pow) simp
  have p5: "bit (push_bit 5 1 :: jint) n \<longleftrightarrow> n = 5" by (rule pow) simp
  have z: "bit (0 :: jint) n \<longleftrightarrow> False" by simp
  show ?thesis
    unfolding Java_org_newsclub_net_unix_NativeUnixSocket_capabilities_def Let_def
      library_loaded_def static_initializers_def
    apply (simp only: fst_conv machine.select_convs statics.select_convs bit_or_iff
        p0 p1 p2 p3 p4 p5 z split: if_split)
    apply blast
    done
qed

lemma capabilities_sint_range:
  "0 \<le> sint (fst (Java_org_newsclub_net_unix_NativeUnixSocket_capabilities env clazz p (library_loaded pe))) \<and>
   sint (fst (Java_org_newsclub_net_unix_NativeUnixSocket_capabilities env clazz p (library_loaded pe))) \<le> 63"
  by (simp add: capabilities_closed_form)

text \<open>
  C1. The six file-scope constants are the single bits 0 (peer credentials), 1 (ancillary
  messages), 2 (file descriptors), 3 (abstract namespace), 4 (datagrams) and 5 (native
  socketpair), and on every platform configuration the native method returns exactly the
  OR of the bits of the features that the platform supports.
\<close>

theorem capabilities_is_or_of_supported_bits:
  "CAPABILITY_PEER_CREDENTIALS static_initializers = push_bit (spec_bit PEER_CREDENTIALS) 1 \<and>
   CAPABILITY_ANCILLARY_MESSAGES static_initializers = push_bit (spec_bit ANCILLARY_MESSAGES) 1 \<and>
   CAPABILITY_FILE_DESCRIPTORS static_initializers = push_bit (spec_bit FILE_DESCRIPTORS) 1 \<and>
   CAPABILITY_ABSTRACT_NAMESPACE static_initializers = push_bit (spec_bit ABSTRACT_NAMESPACE) 1 \<and>
   CAPABILITY_DATAGRAMS static_initializers = push_bit (spec_bit DATAGRAMS) 1 \<and>
   CAPABILITY_NATIVE_SOCKETPAIR static_initializers = push_bit (spec_bit NATIVE_SOCKETPAIR) 1 \<and>
   fst (Java_org_newsclub_net_unix_NativeUnixSocket_capabilities env clazz p (library_loaded pe)) = spec_capabilities p"
proof -
  have "fst (Java_org_newsclub_net_unix_NativeUnixSocket_capabilities env clazz p (library_loaded pe)) = spec_capabilities p"
    unfolding capabilities_closed_form spec_capabilities_def all_features_def
    by (simp add: ac_simps)
  then show ?thesis
    by (simp add: static_initializers_def)
qed

theorem capabilities_is_or_of_supported_bits_witness:
  "fst (Java_org_newsclub_net_unix_NativeUnixSocket_capabilities 0 0 linux_platform (library_loaded None)) = 63 \<and>
   fst (Java_org_newsclub_net_unix_NativeUnixSocket_capabilities 0 0 windows_platform (library_loaded None)) = 0"
  using capabilities_is_or_of_supported_bits [of 0 0 linux_platform None]
    capabilities_is_or_of_supported_bits [of 0 0 windows_platform None]
  by (simp add: spec_defs platform_defs)

text \<open>
  C2. On every platform configuration, if the file-descriptors bit (bit 2) of the result
  is set, then the ancillary-messages bit (bit 1) is set as well.
\<close>

theorem file_descriptors_imply_ancillary:
  "bit (fst (Java_org_newsclub_net_unix_NativeUnixSocket_capabilities env clazz p (library_loaded pe))) 2 \<longrightarrow>
   bit (fst (Java_org_newsclub_net_unix_NativeUnixSocket_capabilities env clazz p (library_loaded pe))) 1"
  by (simp add: capabilities_bit_iff)

theorem file_descriptors_imply_ancillary_witness:
  "bit (fst (Java_org_newsclub_net_unix_NativeUnixSocket_capabilities 0 0 macos_platform (library_loaded None))) 2 \<and>
   bit (fst (Java_org_newsclub_net_unix_NativeUnixSocket_capabilities 0 0 macos_platform (library_loaded None))) 1"
proof -
  have h: "bit (fst (Java_org_newsclub_net_unix_NativeUnixSocket_capabilities 0 0 macos_platform (library_loaded None))) 2"
    by (simp add: native_defs platform_defs)
  with file_descriptors_imply_ancillary [of 0 0 macos_platform None] show ?thesis
    by simp
qed

text \<open>
  C3. The query is deterministic and has no side effect. On a fixed platform
  configuration any two calls return the same bitmask, whatever environment and class
  arguments each is given and whatever exception is pending when each is made: the
  result depends on nothing but the file-scope variables, which no call writes. Each
  call leaves the machine (the file-scope variables and the pending exception) exactly
  as it found it, so a later call returns what the earlier one did.
\<close>

theorem capabilities_deterministic_no_effect:
  "fst (Java_org_newsclub_net_unix_NativeUnixSocket_capabilities env1 clazz1 p \<lparr> statics = s, pending_exception = pe1 \<rparr>) =
     fst (Java_org_newsclub_net_unix_NativeUnixSocket_capabilities env2 clazz2 p \<lparr> statics = s, pending_exception = pe2 \<rparr>) \<and>
   snd (Java_org_newsclub_net_unix_NativeUnixSocket_capabilities env1 clazz1 p m) = m \<and>
   fst (Java_org_newsclub_net_unix_NativeUnixSocket_capabilities env2 clazz2 p (snd (Java_org_newsclub_net_unix_NativeUnixSocket_capabilities env1 clazz1 p m))) = fst (Java_org_newsclub_net_unix_NativeUnixSocket_capabilities env1 clazz1 p m)"
  by (simp add: Java_org_newsclub_net_unix_NativeUnixSocket_capabilities_def Let_def)

theorem capabilities_deterministic_no_effect_witness:
  "fst (Java_org_newsclub_net_unix_NativeUnixSocket_capabilities 1 2 linux_platform (library_loaded None)) = 63 \<and>
   fst (Java_org_newsclub_net_unix_NativeUnixSocket_capabilities 3 4 linux_platform (library_loaded (Some ''java.io.IOException''))) = 63 \<and>
   snd (Java_org_newsclub_net_unix_NativeUnixSocket_capabilities 1 2 linux_platform (library_loaded (Some ''java.io.IOException''))) =
     library_loaded (Some ''java.io.IOException'')"
proof -
  have "fst (Java_org_newsclub_net_unix_NativeUnixSocket_capabilities 1 2 linux_platform (library_loaded None)) = 63"
    by (simp add: native_defs platform_defs)
  then show ?thesis
    using capabilities_deterministic_no_effect
      [of 1 2 linux_platform static_initializers None 3 4 "Some ''java.io.IOException''"
          "library_loaded (Some ''java.io.IOException'')"]
    by (simp add: library_loaded_def)
qed

text \<open>
  C4. The peer-credentials bit (bit 0) of the result is set if and only if the platform
  defines at least one of \<^verbatim>\<open>LOCAL_PEERCRED\<close>, \<^verbatim>\<open>LOCAL_PEEREPID\<close>, \<^verbatim>\<open>LOCAL_PEEREUUID\<close> and
  \<^verbatim>\<open>SO_PEERCRED\<close>, or is NetBSD, or is Solaris (\<^verbatim>\<open>__sun\<close> or \<^verbatim>\<open>__sun__\<close>).
\<close>

theorem peer_credentials_bit_iff:
  "bit (fst (Java_org_newsclub_net_unix_NativeUnixSocket_capabilities env clazz p (library_loaded pe))) 0 \<longleftrightarrow>
     defined_LOCAL_PEERCRED p \<or> defined_LOCAL_PEEREPID p \<or> defined_LOCAL_PEEREUUID p \<or>
     defined_SO_PEERCRED p \<or> defined_NetBSD p \<or> (defined_sun p \<or> defined_sun_alt p)"
  by (simp add: capabilities_bit_iff)

theorem peer_credentials_bit_iff_witness:
  "bit (fst (Java_org_newsclub_net_unix_NativeUnixSocket_capabilities 0 0 solaris_platform (library_loaded None))) 0 \<and>
   \<not> bit (fst (Java_org_newsclub_net_unix_NativeUnixSocket_capabilities 0 0 windows_platform (library_loaded None))) 0"
  using peer_credentials_bit_iff [of 0 0 solaris_platform None]
    peer_credentials_bit_iff [of 0 0 windows_platform None]
  by (simp add: platform_defs)

text \<open>
  C5. The abstract-namespace bit (bit 3) of the result is set if and only if the platform
  is Linux (\<^verbatim>\<open>__linux__\<close> is defined); on every other platform configuration it is unset.
\<close>

theorem abstract_namespace_bit_iff:
  "bit (fst (Java_org_newsclub_net_unix_NativeUnixSocket_capabilities env clazz p (library_loaded pe))) 3 \<longleftrightarrow> defined_linux p"
  by (simp add: capabilities_bit_iff)

theorem abstract_namespace_bit_iff_witness:
  "bit (fst (Java_org_newsclub_net_unix_NativeUnixSocket_capabilities 0 0 linux_platform (library_loaded None))) 3 \<and>
   \<not> bit (fst (Java_org_newsclub_net_unix_NativeUnixSocket_capabilities 0 0 macos_platform (library_loaded None))) 3"
  using abstract_namespace_bit_iff [of 0 0 linux_platform None]
    abstract_namespace_bit_iff [of 0 0 macos_platform None]
  by (simp add: platform_defs)

text \<open>
  C6. The datagrams bit (bit 4) and the native-socketpair bit (bit 5) of the result are
  each set on every platform configuration but the Windows one (\<^verbatim>\<open>_WIN32\<close> defined),
  where both are unset.
\<close>

theorem datagrams_socketpair_bits_iff:
  "(bit (fst (Java_org_newsclub_net_unix_NativeUnixSocket_capabilities env clazz p (library_loaded pe))) 4 \<longleftrightarrow> \<not> defined_WIN32 p) \<and>
   (bit (fst (Java_org_newsclub_net_unix_NativeUnixSocket_capabilities env clazz p (library_loaded pe))) 5 \<longleftrightarrow> \<not> defined_WIN32 p)"
  by (simp add: capabilities_bit_iff)

theorem datagrams_socketpair_bits_iff_witness:
  "\<not> bit (fst (Java_org_newsclub_net_unix_NativeUnixSocket_capabilities 0 0 windows_platform (library_loaded None))) 4 \<and>
   \<not> bit (fst (Java_org_newsclub_net_unix_NativeUnixSocket_capabilities 0 0 windows_platform (library_loaded None))) 5 \<and>
   bit (fst (Java_org_newsclub_net_unix_NativeUnixSocket_capabilities 0 0 solaris_platform (library_loaded None))) 4 \<and>
   bit (fst (Java_org_newsclub_net_unix_NativeUnixSocket_capabilities 0 0 solaris_platform (library_loaded None))) 5"
  using datagrams_socketpair_bits_iff [of 0 0 windows_platform None]
    datagrams_socketpair_bits_iff [of 0 0 solaris_platform None]
  by (simp add: platform_defs)

text \<open>
  C7. The query never fails: on every platform configuration the call returns an integer
  and the machine unchanged, so no exception becomes pending through it; the integer is
  not negative, so it is no error code; and a feature that the platform lacks shows as an
  unset bit of that integer.
\<close>

theorem capabilities_never_fails:
  "\<exists>r. Java_org_newsclub_net_unix_NativeUnixSocket_capabilities env clazz p (library_loaded pe) = (r, library_loaded pe) \<and>
       0 \<le> sint r \<and>
       (\<forall>f. \<not> spec_supports p f \<longrightarrow> \<not> bit r (spec_bit f))"
proof -
  let ?r = "fst (Java_org_newsclub_net_unix_NativeUnixSocket_capabilities env clazz p (library_loaded pe))"
  have "Java_org_newsclub_net_unix_NativeUnixSocket_capabilities env clazz p (library_loaded pe) = (?r, library_loaded pe)"
    using capabilities_unchanged_machine [of env clazz p "library_loaded pe"]
    by (simp add: prod_eq_iff)
  moreover have "0 \<le> sint ?r"
    using capabilities_sint_range by simp
  moreover have "\<not> bit ?r (spec_bit f)" if "\<not> spec_supports p f" for f
    using that by (cases f) (simp_all add: capabilities_bit_iff)
  ultimately show ?thesis
    by blast
qed

theorem capabilities_never_fails_witness:
  "\<not> spec_supports windows_platform DATAGRAMS \<and>
   Java_org_newsclub_net_unix_NativeUnixSocket_capabilities 0 0 windows_platform (library_loaded None) = (0, library_loaded None)"
proof -
  have h: "\<not> spec_supports windows_platform DATAGRAMS"
    by (simp add: platform_defs)
  obtain r where r: "Java_org_newsclub_net_unix_NativeUnixSocket_capabilities 0 0 windows_platform (library_loaded None) = (r, library_loaded None)"
    and absent: "\<forall>f. \<not> spec_supports windows_platform f \<longrightarrow> \<not> bit r (spec_bit f)"
    using capabilities_never_fails [of 0 0 windows_platform None] by blast
  have "r = fst (Java_org_newsclub_net_unix_NativeUnixSocket_capabilities 0 0 windows_platform (library_loaded None))"
    by (simp add: r)
  also have "\<dots> = 0"
    by (simp add: native_defs platform_defs)
  finally show ?thesis
    using h r by simp
qed

text \<open>
  C9. On every platform configuration the result lies between 0 and 63 inclusive: no bit
  above bit 5 is set.
\<close>

theorem capabilities_in_range:
  "0 \<le> sint (fst (Java_org_newsclub_net_unix_NativeUnixSocket_capabilities env clazz p (library_loaded pe))) \<and>
   sint (fst (Java_org_newsclub_net_unix_NativeUnixSocket_capabilities env clazz p (library_loaded pe))) \<le> 63 \<and>
   (\<forall>n. 5 < n \<longrightarrow> \<not> bit (fst (Java_org_newsclub_net_unix_NativeUnixSocket_capabilities env clazz p (library_loaded pe))) n)"
  using capabilities_sint_range [of env clazz p pe] by (simp add: capabilities_bit_iff)

theorem capabilities_in_range_witness:
  "(5::nat) < 6 \<and> \<not> bit (fst (Java_org_newsclub_net_unix_NativeUnixSocket_capabilities 0 0 linux_platform (library_loaded None))) 6 \<and>
   sint (fst (Java_org_newsclub_net_unix_NativeUnixSocket_capabilities 0 0 linux_platform (library_loaded None))) \<le> 63"
  using capabilities_in_range [of 0 0 linux_platform None] by simp

text \<open>
  C10. On every platform configuration the ancillary-messages bit (bit 1) and the
  file-descriptors bit (bit 2) of the result are equal.
\<close>

theorem ancillary_and_file_descriptors_equal:
  "bit (fst (Java_org_newsclub_net_unix_NativeUnixSocket_capabilities env clazz p (library_loaded pe))) 1 \<longleftrightarrow>
   bit (fst (Java_org_newsclub_net_unix_NativeUnixSocket_capabilities env clazz p (library_loaded pe))) 2"
  by (simp add: capabilities_bit_iff)

theorem ancillary_and_file_descriptors_equal_witness:
  "bit (fst (Java_org_newsclub_net_unix_NativeUnixSocket_capabilities 0 0 linux_platform (library_loaded None))) 1 \<and>
   bit (fst (Java_org_newsclub_net_unix_NativeUnixSocket_capabilities 0 0 linux_platform (library_loaded None))) 2 \<and>
   \<not> bit (fst (Java_org_newsclub_net_unix_NativeUnixSocket_capabilities 0 0 windows_platform (library_loaded None))) 1 \<and>
   \<not> bit (fst (Java_org_newsclub_net_unix_NativeUnixSocket_capabilities 0 0 windows_platform (library_loaded None))) 2"
proof -
  have "bit (fst (Java_org_newsclub_net_unix_NativeUnixSocket_capabilities 0 0 linux_platform (library_loaded None))) 1"
    by (simp add: native_defs platform_defs)
  moreover have "\<not> bit (fst (Java_org_newsclub_net_unix_NativeUnixSocket_capabilities 0 0 windows_platform (library_loaded None))) 1"
    by (simp add: native_defs platform_defs)
  ultimately show ?thesis
    using ancillary_and_file_descriptors_equal [of 0 0 linux_platform None]
      ancillary_and_file_descriptors_equal [of 0 0 windows_platform None]
    by simp
qed

section \<open>Properties of the socket handle lifecycle\<close>

text \<open>\<open>Closed\<close> is absorbing: every operation is refused and the state stays.\<close>

lemma perform_Closed: "perform opn os Closed = (Inl ClosedHandle, Closed)"
  by (simp add: perform_def)

lemma run_Closed: "run ops Closed = Closed"
  by (induction ops) (auto simp add: perform_Closed)

text \<open>After \<open>Close\<close> the handle is closed, from whatever state and whatever the system reports.\<close>

lemma perform_Close_state: "snd (perform Close os s) = Closed"
  by (simp add: perform_def)

text \<open>
  C8. For every socket handle, \<open>Write\<close> in state \<open>Unbound\<close> fails with \<open>InvalidState\<close>; and
  once \<open>Close\<close> has been invoked on a handle, in whatever state, \<open>Write\<close> fails with
  \<open>ClosedHandle\<close>, also after any further operations on the handle.
\<close>

theorem write_unbound_invalid_write_after_close_refused:
  "fst (perform Write os Unbound) = Inl InvalidState \<and>
   fst (perform Write os' (run ops (snd (perform Close os0 s)))) = Inl ClosedHandle"
  by (simp add: perform_Close_state run_Closed perform_Closed) (simp add: perform_def)

theorem write_unbound_invalid_write_after_close_refused_witness:
  "fst (perform Write (Succeeds 5) Unbound) = Inl InvalidState \<and>
   snd (perform Close (Fails (IOFailure 9)) Connected) = Closed \<and>
   fst (perform Write (Succeeds 5)
          (run [(Bind, Succeeds 0), (Read, Succeeds 3)]
             (snd (perform Close (Fails (IOFailure 9)) Connected)))) = Inl ClosedHandle"
proof -
  have "snd (perform Close (Fails (IOFailure 9)) Connected) = Closed"
    by (simp add: perform_def)
  then show ?thesis
    using write_unbound_invalid_write_after_close_refused
      [of "Succeeds 5" "Succeeds 5" "[(Bind, Succeeds 0), (Read, Succeeds 3)]"
          "Fails (IOFailure 9)" Connected]
    by simp
qed

end
